theory Spec2Isabelle
  imports Main
begin

section \<open>The i18n check script: command-line flags\<close>

text \<open>
  The script receives its flags as dynamically typed values: a flag that was not given is
  \<^verbatim>\<open>undefined\<close>, a bare flag is a boolean, a flag with a value is a string, a
  repeated flag is a list of strings. The checks of the script test these values with
  \<^verbatim>\<open>!== undefined\<close>, \<^verbatim>\<open>typeof\<close> and JavaScript truthiness, so the three tests
  are written out.
\<close>

datatype flag_value = Undefined | FBool bool | FStr string | FList "string list"

fun truthy :: "flag_value \<Rightarrow> bool" where
  "truthy Undefined = False"
| "truthy (FBool b) = b"
| "truthy (FStr s) = (s \<noteq> [])"
| "truthy (FList xs) = True"

fun is_defined :: "flag_value \<Rightarrow> bool" where
  "is_defined Undefined = False"
| "is_defined (FBool b) = True"
| "is_defined (FStr s) = True"
| "is_defined (FList xs) = True"

fun is_boolean :: "flag_value \<Rightarrow> bool" where
  "is_boolean (FBool b) = True"
| "is_boolean Undefined = False"
| "is_boolean (FStr s) = False"
| "is_boolean (FList xs) = False"

text \<open>
  The flags object the callback destructures (the keys \<^verbatim>\<open>ignore-incompatible\<close>,
  \<^verbatim>\<open>ignore-missing\<close>, \<^verbatim>\<open>ignore-unused\<close>, \<^verbatim>\<open>include-config\<close>,
  \<^verbatim>\<open>ignore-untracked\<close>, \<^verbatim>\<open>fix\<close> and \<^verbatim>\<open>path\<close>).
\<close>

record flags =
  ignore_incompatible :: flag_value
  ignore_missing :: flag_value
  ignore_unused :: flag_value
  include_config :: flag_value
  ignore_untracked :: flag_value
  fix_flag :: flag_value
  path_flag :: flag_value

text \<open>The destructuring default \<^verbatim>\<open>fix = false\<close>: it applies when the flag is undefined.\<close>

definition fix_of :: "flags \<Rightarrow> flag_value" where
  "fix_of fl = (case fix_flag fl of Undefined \<Rightarrow> FBool False | v \<Rightarrow> v)"

section \<open>Thrown values\<close>

text \<open>
  What the script can catch. \<open>ListrError\<close> is the task runner's own aggregate error: its
  name is \<^verbatim>\<open>ListrError\<close> and its \<^verbatim>\<open>errors\<close> property is the list of collected
  errors. \<open>FailError\<close> is a failure that carries one message for the user and has no
  \<^verbatim>\<open>errors\<close> property. \<open>Thrown name message errors\<close> is any other thrown object,
  with its \<^verbatim>\<open>errors\<close> property when it has one.
\<close>

datatype js_error =
    ListrError "js_error list"
  | FailError string
  | Thrown string string "js_error list option"

fun err_name :: "js_error \<Rightarrow> string" where
  "err_name (ListrError es) = ''ListrError''"
| "err_name (FailError m) = ''Error''"
| "err_name (Thrown n m es) = n"

fun err_errors :: "js_error \<Rightarrow> js_error list option" where
  "err_errors (ListrError es) = Some es"
| "err_errors (FailError m) = None"
| "err_errors (Thrown n m es) = es"

fun is_listr_error :: "js_error \<Rightarrow> bool" where
  "is_listr_error (ListrError es) = True"
| "is_listr_error (FailError m) = False"
| "is_listr_error (Thrown n m es) = False"

text \<open>
  Modelled from the spec: \<^verbatim>\<open>createFailError\<close> (module \<^verbatim>\<open>./run\<close>, not among the
  sources) builds the failure that is printed as a single formatted message.
\<close>

definition createFailError :: "string \<Rightarrow> js_error" where
  "createFailError reason = FailError reason"

section \<open>Argument validation (the four checks at the head of the callback)\<close>

text \<open>The badge every message starts with; the colour codes chalk adds are left out.\<close>

definition i18n_error_badge :: string where
  "i18n_error_badge = '' I18N ERROR ''"

definition incompatible_flags_message :: string where
  "incompatible_flags_message = i18n_error_badge @
     '' none of the --ignore-incompatible, --ignore-unused or --ignore-missing or --ignore-untracked is allowed when --fix is set.''"

definition require_value_message :: string where
  "require_value_message = i18n_error_badge @ '' --path and --include-config require a value''"

definition fix_value_message :: string where
  "fix_value_message = i18n_error_badge @ '' --fix can't have a value''"

definition ignore_untracked_value_message :: string where
  "ignore_untracked_value_message = i18n_error_badge @ '' --ignore-untracked can't have a value''"

definition validate :: "flags \<Rightarrow> js_error + unit" where
  "validate fl =
     (if truthy (fix_of fl) \<and>
         (is_defined (ignore_incompatible fl) \<or> is_defined (ignore_unused fl) \<or>
          is_defined (ignore_missing fl) \<or> is_defined (ignore_untracked fl))
      then Inl (createFailError incompatible_flags_message)
      else if is_boolean (path_flag fl) \<or> is_boolean (include_config fl)
      then Inl (createFailError require_value_message)
      else if \<not> is_boolean (fix_of fl)
      then Inl (createFailError fix_value_message)
      else if is_defined (ignore_untracked fl) \<and> \<not> is_boolean (ignore_untracked fl)
      then Inl (createFailError ignore_untracked_value_message)
      else Inr ())"

section \<open>Configuration, context and the observable state of a run\<close>

record config =
  config_translations :: "string list"

text \<open>The options object a compatibility check hands to \<^verbatim>\<open>integrateLocaleFiles\<close>
  (the log sink is left out).\<close>

record integrate_options =
  sourceFileName :: string
  targetFileName :: "string option"
  dryRun :: bool
  ignoreIncompatible :: bool
  ignoreUnused :: bool
  ignoreMissing :: bool
  options_config :: config

text \<open>
  The trace records, in order, what a run does: loading the configuration, every task
  function the runner invokes (by the task's title), and every call of the two routines
  the script's own tasks make.
\<close>

datatype event =
    LoadConfig flag_value
  | RunTask string
  | ScanCall string
  | IntegrateCall integrate_options

datatype log_entry = LogText string | LogError js_error

text \<open>
  Modelled from the spec: the \<^verbatim>\<open>ErrorReporter\<close> (module \<^verbatim>\<open>./i18n\<close>, not among
  the sources) is an ordered sequence of error records; here each record is the string
  that \<^verbatim>\<open>join\<close> renders it as. The context object of \<^verbatim>\<open>list.run\<close> holds the
  message catalogue and the reporter; \<open>external\<close> is everything outside the process that
  the routines read and write.
\<close>

record 'x run_context =
  messages :: "(string \<times> string) list"
  reporter :: "string list"
  external :: 'x

record 'x world =
  ctx :: "'x run_context"
  trace :: "event list"
  exitCode :: "nat option"
  logged :: "log_entry list"

datatype completion = Returned | Threw js_error | Exited

section \<open>The task runner\<close>

text \<open>
  The runner is the listr package, which the script imports; its run loop is modelled
  here as the package documents and implements it. A list is built from task objects and
  the options \<^verbatim>\<open>concurrent\<close> and \<^verbatim>\<open>exitOnError\<close>; the package describes the
  latter as: set to false if you don't want to stop the execution of other tasks when one
  or more tasks fail. Of a task object the runner reads \<^verbatim>\<open>title\<close>, \<^verbatim>\<open>enabled\<close>
  and \<^verbatim>\<open>task\<close> (and \<^verbatim>\<open>skip\<close>, which no task of the script has). The field
  \<open>exitOnError_prop\<close> holds a property \<^verbatim>\<open>exitOnError\<close> written on the task object
  itself, as the scan tasks of the script have it; the runner does not read it: whether a
  failure stops a list is the list's own option. Every list of the script sets
  \<^verbatim>\<open>exitOnError\<close> itself, so no list takes the option over from the list around it.
\<close>

record listr_options =
  concurrent :: bool
  exitOnError :: "bool option"

record 'x listr_task =
  title :: string
  enabled :: bool
  exitOnError_prop :: "bool option"
  task :: "'x world \<Rightarrow> js_error option \<times> 'x world"

text \<open>\<^verbatim>\<open>exitOnError !== false\<close>: an option left undefined stops the list too.\<close>

fun stops_on_error :: "bool option \<Rightarrow> bool" where
  "stops_on_error (Some False) = False"
| "stops_on_error (Some True) = True"
| "stops_on_error None = True"

text \<open>A failed task is reported to the list's error array; an aggregate error is
  flattened into it.\<close>

fun report :: "js_error \<Rightarrow> js_error list \<Rightarrow> js_error list" where
  "report (ListrError es) errs = errs @ es"
| "report (FailError m) errs = errs @ [FailError m]"
| "report (Thrown n m es) errs = errs @ [Thrown n m es]"

text \<open>
  One list, its tasks taken in order. A task that is not enabled is passed over. A task
  whose function fails is reported; the error is thrown on, ending the list, when the
  list stops on errors and the error is not an aggregate of a sublist. The result is the
  error thrown on (if any), the errors collected and the state.
\<close>

fun run_tasks ::
  "bool \<Rightarrow> 'x listr_task list \<Rightarrow> js_error list \<Rightarrow> 'x world \<Rightarrow>
     js_error option \<times> js_error list \<times> 'x world" where
  "run_tasks stop [] errs w = (None, errs, w)"
| "run_tasks stop (t # ts) errs w =
     (if \<not> enabled t then run_tasks stop ts errs w
      else (case task t (w\<lparr>trace := trace w @ [RunTask (title t)]\<rparr>) of
              (None, w') \<Rightarrow> run_tasks stop ts errs w'
            | (Some e, w') \<Rightarrow>
                if stop \<and> \<not> is_listr_error e then (Some e, report e errs, w')
                else run_tasks stop ts (report e errs) w'))"

text \<open>
  \<^verbatim>\<open>list.run(context)\<close>: when no task threw on and errors were collected, the list
  fails with one aggregate error carrying them. Concurrent tasks are taken in list order.
\<close>

definition run_listr ::
  "listr_options \<Rightarrow> 'x listr_task list \<Rightarrow> 'x world \<Rightarrow> js_error option \<times> 'x world" where
  "run_listr opts ts w =
     (case run_tasks (stops_on_error (exitOnError opts)) ts [] w of
        (Some e, errs, w') \<Rightarrow> (Some e, w')
      | (None, errs, w') \<Rightarrow>
          if errs = [] then (None, w') else (Some (ListrError errs), w'))"

section \<open>The routines the script calls\<close>

text \<open>
  The routines of the i18n modules are parameters of the model. Each is given what the
  script passes to it and the outside world, and returns what it leaves behind and the
  error it threw, if any. \<^verbatim>\<open>extractDefaultMessages\<close> returns the list of the
  extraction sub-tasks, or throws; a sub-task is a title and a function of the context.
\<close>

record 'x ctx_task =
  ctitle :: string
  caction :: "'x run_context \<Rightarrow> js_error option \<times> 'x run_context"

record 'x env =
  mergeConfigs :: "flag_value \<Rightarrow> 'x \<Rightarrow> js_error + config"
  extractDefaultMessages :: "flag_value \<Rightarrow> config \<Rightarrow> js_error + 'x ctx_task list"
  extractUntrackedMessages ::
    "string \<Rightarrow> config \<Rightarrow> string list \<Rightarrow> 'x \<Rightarrow> js_error option \<times> string list \<times> 'x"
  integrateLocaleFiles ::
    "(string \<times> string) list \<Rightarrow> integrate_options \<Rightarrow> 'x \<Rightarrow>
       js_error option \<times> (string \<times> string) list \<times> 'x"

section \<open>The three stages\<close>

definition context_task :: "'x ctx_task \<Rightarrow> 'x listr_task" where
  "context_task ct =
     \<lparr>title = ctitle ct, enabled = True, exitOnError_prop = None,
      task = (\<lambda>w. case caction ct (ctx w) of (r, c') \<Rightarrow> (r, w\<lparr>ctx := c'\<rparr>))\<rparr>"

definition extractDefaultMessagesTasks ::
  "'x env \<Rightarrow> flag_value \<Rightarrow> config \<Rightarrow> js_error + 'x listr_task list" where
  "extractDefaultMessagesTasks env path cfg =
     (case extractDefaultMessages env path cfg of
        Inl e \<Rightarrow> Inl e
      | Inr sub_tasks \<Rightarrow> Inr (map context_task sub_tasks))"

definition compatibility_options ::
  "bool \<Rightarrow> flag_value \<Rightarrow> flag_value \<Rightarrow> flag_value \<Rightarrow> config \<Rightarrow> string \<Rightarrow> integrate_options" where
  "compatibility_options fix ignoreIncompatible_flag ignoreUnused_flag ignoreMissing_flag cfg translationsPath =
     \<lparr>sourceFileName = translationsPath,
      targetFileName = (if fix then Some translationsPath else None),
      dryRun = (\<not> fix),
      ignoreIncompatible = (fix \<or> truthy ignoreIncompatible_flag),
      ignoreUnused = (fix \<or> truthy ignoreUnused_flag),
      ignoreMissing = (fix \<or> truthy ignoreMissing_flag),
      options_config = cfg\<rparr>"

definition compatibility_task ::
  "'x env \<Rightarrow> integrate_options \<Rightarrow> 'x world \<Rightarrow> js_error option \<times> 'x world" where
  "compatibility_task env opts w =
     (case integrateLocaleFiles env (messages (ctx w)) opts (external (ctx w)) of
        (r, ms', x') \<Rightarrow>
          (r, w\<lparr>ctx := (ctx w)\<lparr>messages := ms', external := x'\<rparr>,
                 trace := trace w @ [IntegrateCall opts]\<rparr>))"

definition compatibiltyChecksTasks ::
  "'x env \<Rightarrow> bool \<Rightarrow> flag_value \<Rightarrow> flag_value \<Rightarrow> flag_value \<Rightarrow> config \<Rightarrow> 'x listr_task list" where
  "compatibiltyChecksTasks env fix ignoreIncompatible_flag ignoreUnused_flag ignoreMissing_flag cfg =
     map (\<lambda>translationsPath.
            \<lparr>title = ''Compatibility check with '' @ translationsPath,
             enabled = True, exitOnError_prop = None,
             task = compatibility_task env
               (compatibility_options fix ignoreIncompatible_flag ignoreUnused_flag ignoreMissing_flag cfg
                  translationsPath)\<rparr>)
         (config_translations cfg)"

definition srcCodePaths :: "string list" where
  "srcCodePaths = [''./src'', ''./packages'', ''./x-pack'']"

definition untracked_task ::
  "'x env \<Rightarrow> config \<Rightarrow> string \<Rightarrow> 'x world \<Rightarrow> js_error option \<times> 'x world" where
  "untracked_task env cfg srcPath w =
     (case extractUntrackedMessages env srcPath cfg (reporter (ctx w)) (external (ctx w)) of
        (r, rep', x') \<Rightarrow>
          (r, w\<lparr>ctx := (ctx w)\<lparr>reporter := rep', external := x'\<rparr>,
                 trace := trace w @ [ScanCall srcPath]\<rparr>))"

definition untrackedMessagesTasks :: "'x env \<Rightarrow> config \<Rightarrow> 'x listr_task list" where
  "untrackedMessagesTasks env cfg =
     map (\<lambda>srcPath.
            \<lparr>title = ''Checking untracked messages in '' @ srcPath,
             enabled = True, exitOnError_prop = Some False,
             task = untracked_task env cfg srcPath\<rparr>)
         srcCodePaths"

definition untracked_stage :: "'x env \<Rightarrow> flag_value \<Rightarrow> config \<Rightarrow> 'x listr_task" where
  "untracked_stage env ignoreUntracked cfg =
     \<lparr>title = ''Checking untracked messages'',
      enabled = (\<not> truthy ignoreUntracked), exitOnError_prop = None,
      task = run_listr \<lparr>concurrent = False, exitOnError = Some True\<rparr>
               (untrackedMessagesTasks env cfg)\<rparr>"

text \<open>
  The task function of the extraction stage calls \<^verbatim>\<open>extractDefaultMessages\<close> when
  the runner invokes it: an error thrown by that call is an error of the stage's task
  function, thrown before the list of the sub-tasks exists.
\<close>

definition extraction_stage :: "'x env \<Rightarrow> flag_value \<Rightarrow> config \<Rightarrow> 'x listr_task" where
  "extraction_stage env path cfg =
     \<lparr>title = ''Extracting Default Messages'',
      enabled = True, exitOnError_prop = None,
      task = (\<lambda>w. case extractDefaultMessagesTasks env path cfg of
                     Inl e \<Rightarrow> (Some e, w)
                   | Inr ts \<Rightarrow>
                       run_listr \<lparr>concurrent = False, exitOnError = Some False\<rparr> ts w)\<rparr>"

definition compatibility_stage ::
  "'x env \<Rightarrow> bool \<Rightarrow> flag_value \<Rightarrow> flag_value \<Rightarrow> flag_value \<Rightarrow> config \<Rightarrow> 'x listr_task" where
  "compatibility_stage env fix ignoreIncompatible_flag ignoreUnused_flag ignoreMissing_flag cfg =
     \<lparr>title = ''Compatibility Checks'',
      enabled = True, exitOnError_prop = None,
      task = run_listr \<lparr>concurrent = True, exitOnError = Some False\<rparr>
               (compatibiltyChecksTasks env fix ignoreIncompatible_flag ignoreUnused_flag ignoreMissing_flag cfg)\<rparr>"

section \<open>The end of a run: the catch block\<close>

text \<open>\<^verbatim>\<open>Array.prototype.join\<close>.\<close>

fun js_join :: "string \<Rightarrow> string list \<Rightarrow> string" where
  "js_join sep [] = []"
| "js_join sep [x] = x"
| "js_join sep (x # y # ys) = x @ sep @ js_join sep (y # ys)"

definition blank_line :: string where
  "blank_line = [CHR 0x0A, CHR 0x0A]"

text \<open>
  The catch block around \<^verbatim>\<open>list.run\<close>. The exit code is set first. An error with no
  \<^verbatim>\<open>errors\<close> property is logged as unhandled and the process is ended at once
  (\<open>Exited\<close>: \<^verbatim>\<open>process.exit()\<close>, which leaves with the exit code already set). An
  error named \<^verbatim>\<open>ListrError\<close>, when the reporter has entries, becomes one failure
  whose message is the entries joined by blank lines. Otherwise every entry of the error's
  list is logged and the callback returns.
\<close>

definition on_run_error :: "js_error \<Rightarrow> 'x world \<Rightarrow> completion \<times> 'x world" where
  "on_run_error error w =
     (let w1 = w\<lparr>exitCode := Some 1\<rparr> in
      case err_errors error of
        None \<Rightarrow>
          (Exited, w1\<lparr>logged := logged w1 @ [LogText ''Unhandled exception!'', LogError error]\<rparr>)
      | Some es \<Rightarrow>
          if err_name error = ''ListrError'' \<and> reporter (ctx w1) \<noteq> []
          then (Threw (createFailError (js_join blank_line (reporter (ctx w1)))), w1)
          else (Returned, w1\<lparr>logged := logged w1 @ map LogError es\<rparr>))"

section \<open>The callback\<close>

definition initial_world :: "'x \<Rightarrow> 'x world" where
  "initial_world x0 =
     \<lparr>ctx = \<lparr>messages = [], reporter = [], external = x0\<rparr>,
      trace = [], exitCode = None, logged = []\<rparr>"

definition stages :: "'x env \<Rightarrow> flags \<Rightarrow> config \<Rightarrow> 'x listr_task list" where
  "stages env fl cfg =
     [untracked_stage env (ignore_untracked fl) cfg,
      extraction_stage env (path_flag fl) cfg,
      compatibility_stage env (truthy (fix_of fl)) (ignore_incompatible fl)
        (ignore_unused fl) (ignore_missing fl) cfg]"

text \<open>
  The whole callback. Past the checks \<^verbatim>\<open>fix\<close> is a boolean, so its truthiness is its
  value. A process whose exit code was never set leaves with 0.
\<close>

definition run_callback :: "'x env \<Rightarrow> flags \<Rightarrow> 'x \<Rightarrow> completion \<times> 'x world" where
  "run_callback env fl x0 =
     (case validate fl of
        Inl e \<Rightarrow> (Threw e, initial_world x0)
      | Inr u \<Rightarrow>
          (let w1 = (initial_world x0)\<lparr>trace := [LoadConfig (include_config fl)]\<rparr> in
           case mergeConfigs env (include_config fl) x0 of
             Inl e \<Rightarrow> (Threw e, w1)
           | Inr cfg \<Rightarrow>
               if config_translations cfg = [] then (Returned, w1)
               else (case run_listr \<lparr>concurrent = False, exitOnError = Some True\<rparr>
                            (stages env fl cfg) w1 of
                       (None, w2) \<Rightarrow> (Returned, w2)
                     | (Some error, w2) \<Rightarrow> on_run_error error w2)))"

fun exit_status :: "nat option \<Rightarrow> nat" where
  "exit_status None = 0"
| "exit_status (Some c) = c"

section \<open>The PNG export job: \<open>createJob\<close>\<close>

text \<open>
  \<^verbatim>\<open>createJob\<close> takes the job parameters, the request headers and the request. The
  encryption of the headers and the URL check belong to other modules and are parameters;
  either may throw. \<open>now_iso\<close> is what \<^verbatim>\<open>new Date().toISOString()\<close> gives when it
  is evaluated. The function returns the order of its effects next to its result.
\<close>

record 'l job_params =
  param_objectType :: string
  param_title :: string
  param_relativeUrl :: string
  param_browserTimezone :: string
  param_layout :: 'l

record request_facade =
  getBasePath :: string

record 'h job_env =
  encrypt :: "'h \<Rightarrow> js_error + string"
  validateUrls :: "string list \<Rightarrow> js_error option"
  now_iso :: string

record 'l job =
  job_objectType :: string
  job_title :: string
  job_relativeUrl :: string
  job_headers :: string
  job_browserTimezone :: string
  job_layout :: 'l
  job_basePath :: string
  job_forceNow :: string

datatype 'h job_event = Encrypt 'h | ValidateUrls "string list" | GetBasePath | NewDate

definition createJob ::
  "'h job_env \<Rightarrow> 'l job_params \<Rightarrow> 'h \<Rightarrow> request_facade \<Rightarrow> 'h job_event list \<times> (js_error + 'l job)" where
  "createJob env params headers request =
     (case encrypt env headers of
        Inl e \<Rightarrow> ([Encrypt headers], Inl e)
      | Inr serializedEncryptedHeaders \<Rightarrow>
          (case validateUrls env [param_relativeUrl params] of
             Some e \<Rightarrow> ([Encrypt headers, ValidateUrls [param_relativeUrl params]], Inl e)
           | None \<Rightarrow>
               ([Encrypt headers, ValidateUrls [param_relativeUrl params], GetBasePath, NewDate],
                Inr \<lparr>job_objectType = param_objectType params,
                     job_title = param_title params,
                     job_relativeUrl = param_relativeUrl params,
                     job_headers = serializedEncryptedHeaders,
                     job_browserTimezone = param_browserTimezone params,
                     job_layout = param_layout params,
                     job_basePath = getBasePath request,
                     job_forceNow = now_iso env\<rparr>)))"

section \<open>Example inputs\<close>

text \<open>Concrete flags, configurations and routines on which the results below are run.\<close>

definition no_flags :: flags where
  "no_flags = \<lparr>ignore_incompatible = Undefined, ignore_missing = Undefined,
     ignore_unused = Undefined, include_config = Undefined, ignore_untracked = Undefined,
     fix_flag = Undefined, path_flag = Undefined\<rparr>"

definition one_translation :: config where
  "one_translation = \<lparr>config_translations = [''ja-JP.json'']\<rparr>"

definition two_translations :: config where
  "two_translations = \<lparr>config_translations = [''ja-JP.json'', ''zh-CN.json'']\<rparr>"

definition failing_subtask :: "unit ctx_task" where
  "failing_subtask = \<lparr>ctitle = ''first'', caction = (\<lambda>c. (Some (FailError ''bad message''), c))\<rparr>"

definition passing_subtask :: "unit ctx_task" where
  "passing_subtask = \<lparr>ctitle = ''second'', caction = (\<lambda>c. (None, c))\<rparr>"

text \<open>Every routine succeeds and reports nothing.\<close>

definition quiet_env :: "unit env" where
  "quiet_env =
     \<lparr>mergeConfigs = (\<lambda>includeConfig x. Inr one_translation),
      extractDefaultMessages = (\<lambda>path cfg. Inr [passing_subtask]),
      extractUntrackedMessages = (\<lambda>path cfg rep x. (None, rep, x)),
      integrateLocaleFiles = (\<lambda>ms opts x. (None, ms, x))\<rparr>"

text \<open>The configuration names no translation file.\<close>

definition empty_config_env :: "unit env" where
  "empty_config_env = quiet_env\<lparr>mergeConfigs := (\<lambda>includeConfig x. Inr \<lparr>config_translations = []\<rparr>)\<rparr>"

text \<open>The first of two extraction sub-tasks throws; nothing is reported.\<close>

definition extract_fails_env :: "unit env" where
  "extract_fails_env =
     quiet_env\<lparr>extractDefaultMessages := (\<lambda>path cfg. Inr [failing_subtask, passing_subtask])\<rparr>"

text \<open>The scan reports one entry for every source path and returns; an extraction
  sub-task throws.\<close>

definition reported_env :: "unit env" where
  "reported_env =
     quiet_env\<lparr>extractDefaultMessages := (\<lambda>path cfg. Inr [failing_subtask]),
               extractUntrackedMessages :=
                 (\<lambda>path cfg rep x. (None, rep @ [''untracked label in '' @ path], x))\<rparr>"

text \<open>The scan of the second source path reports one entry and then throws.\<close>

definition scan_throws_env :: "unit env" where
  "scan_throws_env =
     quiet_env\<lparr>extractUntrackedMessages :=
       (\<lambda>path cfg rep x.
          if path = ''./packages''
          then (Some (FailError ''cannot read ./packages''), rep @ [''cannot read ./packages''], x)
          else (None, rep, x))\<rparr>"

text \<open>The scan of the first source path throws an error with no list of errors.\<close>

definition scan_crashes_env :: "unit env" where
  "scan_crashes_env =
     quiet_env\<lparr>extractUntrackedMessages :=
       (\<lambda>path cfg rep x. (Some (Thrown ''TypeError'' ''x is not a function'' None), rep, x))\<rparr>"

text \<open>The scan of the first source path reports one entry and throws an error that is
  not the runner's and carries a list of errors.\<close>

definition scan_throws_list_env :: "unit env" where
  "scan_throws_list_env =
     quiet_env\<lparr>extractUntrackedMessages :=
       (\<lambda>path cfg rep x.
          (Some (Thrown ''ValidationError'' ''invalid'' (Some [FailError ''detail''])),
           rep @ [''invalid label in '' @ path], x))\<rparr>"

text \<open>Of two extraction sub-tasks the first throws and the second adds a message to the
  catalogue.\<close>

definition adding_subtask :: "unit ctx_task" where
  "adding_subtask =
     \<lparr>ctitle = ''second'',
      caction = (\<lambda>c. (None, c\<lparr>messages := messages c @ [(''app.title'', ''Title'')]\<rparr>))\<rparr>"

definition fail_then_add_env :: "unit env" where
  "fail_then_add_env =
     quiet_env\<lparr>extractDefaultMessages := (\<lambda>path cfg. Inr [failing_subtask, adding_subtask])\<rparr>"

text \<open>\<^verbatim>\<open>extractDefaultMessages\<close> itself throws.\<close>

definition extract_throws_env :: "unit env" where
  "extract_throws_env =
     quiet_env\<lparr>extractDefaultMessages :=
       (\<lambda>path cfg. Inl (Thrown ''Error'' ''cannot read the source paths'' None))\<rparr>"

text \<open>The merge routine adds the name of the file it was given to the catalogue and
  throws for the second translation file.\<close>

definition merging_env :: "unit env" where
  "merging_env =
     quiet_env\<lparr>mergeConfigs := (\<lambda>includeConfig x. Inr two_translations),
               integrateLocaleFiles :=
                 (\<lambda>ms opts x.
                    (if sourceFileName opts = ''zh-CN.json''
                     then Some (FailError ''incompatible translation'') else None,
                     ms @ [(''merged'', sourceFileName opts)], x))\<rparr>"

definition scan_events :: "event list" where
  "scan_events =
     [RunTask ''Checking untracked messages'',
      RunTask ''Checking untracked messages in ./src'', ScanCall ''./src'',
      RunTask ''Checking untracked messages in ./packages'', ScanCall ''./packages'',
      RunTask ''Checking untracked messages in ./x-pack'', ScanCall ''./x-pack'']"

definition dry_run_events :: "event list" where
  "dry_run_events =
     [RunTask ''Compatibility Checks'', RunTask ''Compatibility check with ja-JP.json'',
      IntegrateCall
        \<lparr>sourceFileName = ''ja-JP.json'', targetFileName = None, dryRun = True,
         ignoreIncompatible = False, ignoreUnused = False, ignoreMissing = False,
         options_config = one_translation\<rparr>]"

definition demo_job_env :: "(string \<times> string) list job_env" where
  "demo_job_env =
     \<lparr>encrypt = (\<lambda>headers. Inr ''Fe26.2**c2VhbGVk''),
      validateUrls = (\<lambda>urls. if list_all (\<lambda>u. take 1 u = ''/'') urls then None
                              else Some (Thrown ''Error'' ''Found invalid URL(s)'' None)),
      now_iso = ''2019-08-01T12:00:00.000Z''\<rparr>"

definition demo_params :: "string job_params" where
  "demo_params =
     \<lparr>param_objectType = ''dashboard'', param_title = ''Sales'',
      param_relativeUrl = ''/app/kibana#/dashboard/1'', param_browserTimezone = ''UTC'',
      param_layout = ''preserve_layout''\<rparr>"

section \<open>Facts about the model\<close>

lemmas stage_defs =
  stages_def untracked_stage_def extraction_stage_def compatibility_stage_def
  untrackedMessagesTasks_def extractDefaultMessagesTasks_def compatibiltyChecksTasks_def
  untracked_task_def compatibility_task_def context_task_def srcCodePaths_def
  compatibility_options_def run_listr_def initial_world_def

lemmas example_defs =
  quiet_env_def empty_config_env_def extract_fails_env_def reported_env_def
  scan_throws_env_def scan_crashes_env_def scan_throws_list_env_def
  fail_then_add_env_def extract_throws_env_def merging_env_def
  failing_subtask_def passing_subtask_def adding_subtask_def
  one_translation_def two_translations_def scan_events_def dry_run_events_def

lemma validate_incompatible:
  assumes "truthy (fix_of fl)"
    and "is_defined (ignore_incompatible fl) \<or> is_defined (ignore_unused fl) \<or>
         is_defined (ignore_missing fl) \<or> is_defined (ignore_untracked fl)"
  shows "validate fl = Inl (createFailError incompatible_flags_message)"
  using assms by (simp add: validate_def)

lemma validate_no_flags: "validate no_flags = Inr ()"
  by (simp add: validate_def no_flags_def fix_of_def)

lemma include_config_no_flags: "include_config no_flags = Undefined"
  by (simp add: no_flags_def)

text \<open>A run whose checks pass, whose configuration has translation files and whose task
  list fails ends in the catch block.\<close>

lemma run_callback_list_error:
  assumes "validate fl = Inr ()"
    and "mergeConfigs env (include_config fl) x0 = Inr cfg"
    and "config_translations cfg \<noteq> []"
    and "run_listr \<lparr>concurrent = False, exitOnError = Some True\<rparr> (stages env fl cfg)
           ((initial_world x0)\<lparr>trace := [LoadConfig (include_config fl)]\<rparr>) = (Some error, w)"
  shows "run_callback env fl x0 = on_run_error error w"
  using assms by (simp add: run_callback_def)

subsection \<open>A list that does not stop on errors runs all its tasks\<close>

lemma run_tasks_continue:
  assumes "\<And>t w. t \<in> set ts \<Longrightarrow> trace (snd (task t w)) = trace w @ ev t"
  shows "fst (run_tasks False ts errs w) = None \<and>
         trace (snd (snd (run_tasks False ts errs w))) =
           trace w @ concat (map (\<lambda>t. RunTask (title t) # ev t) (filter enabled ts))"
  using assms
proof (induction ts arbitrary: errs w)
  case Nil
  show ?case by simp
next
  case (Cons t ts)
  have rest: "\<And>errs w. fst (run_tasks False ts errs w) = None \<and>
         trace (snd (snd (run_tasks False ts errs w))) =
           trace w @ concat (map (\<lambda>t. RunTask (title t) # ev t) (filter enabled ts))"
    using Cons.IH Cons.prems by simp
  show ?case
  proof (cases "enabled t")
    case False
    then show ?thesis using rest by simp
  next
    case True
    let ?w1 = "w\<lparr>trace := trace w @ [RunTask (title t)]\<rparr>"
    obtain r w' where step: "task t ?w1 = (r, w')"
      by (cases "task t ?w1") auto
    have "trace (snd (task t ?w1)) = trace ?w1 @ ev t"
      using Cons.prems by simp
    with step have tr: "trace w' = trace w @ RunTask (title t) # ev t" by simp
    show ?thesis
    proof (cases r)
      case None
      with True step tr show ?thesis using rest [of errs w'] by simp
    next
      case (Some e)
      with True step tr show ?thesis using rest [of "report e errs" w'] by simp
    qed
  qed
qed

lemma run_listr_continue:
  assumes "exitOnError opts = Some False"
    and "\<And>t w. t \<in> set ts \<Longrightarrow> trace (snd (task t w)) = trace w @ ev t"
  shows "trace (snd (run_listr opts ts w)) =
           trace w @ concat (map (\<lambda>t. RunTask (title t) # ev t) (filter enabled ts))"
proof -
  obtain r errs w' where run: "run_tasks False ts [] w = (r, errs, w')"
    by (cases "run_tasks False ts [] w") auto
  from run_tasks_continue [of ts ev "[]" w] assms(2) run
  have r: "r = None"
    and tr: "trace w' =
               trace w @ concat (map (\<lambda>t. RunTask (title t) # ev t) (filter enabled ts))"
    by simp_all
  from run r tr assms(1)
  show ?thesis by (simp add: run_listr_def)
qed

lemma compatibility_task_trace:
  "trace (snd (compatibility_task env opts w)) = trace w @ [IntegrateCall opts]"
  by (simp add: compatibility_task_def split: prod.splits)

subsection \<open>The extraction sub-tasks, run by a list that does not stop on errors\<close>

text \<open>Every sub-task is applied to the context the one before it left; an error is
  collected and the next sub-task runs.\<close>

lemma run_context_tasks:
  "run_tasks False (map context_task cts) errs w =
     (case foldl (\<lambda>(errs, c) ct.
                    case caction ct c of
                      (r, c') \<Rightarrow> (case r of None \<Rightarrow> errs | Some e \<Rightarrow> report e errs, c'))
                 (errs, ctx w) cts of
        (errs', c') \<Rightarrow>
          (None, errs',
           w\<lparr>ctx := c', trace := trace w @ map (\<lambda>ct. RunTask (ctitle ct)) cts\<rparr>))"
proof (induction cts arbitrary: errs w)
  case Nil
  show ?case by simp
next
  case (Cons ct cts)
  let ?w1 = "w\<lparr>trace := trace w @ [RunTask (ctitle ct)]\<rparr>"
  obtain r c1 where act: "caction ct (ctx w) = (r, c1)"
    by (cases "caction ct (ctx w)") auto
  then have step: "task (context_task ct) ?w1 = (r, ?w1\<lparr>ctx := c1\<rparr>)"
    by (simp add: context_task_def)
  have en: "enabled (context_task ct)" and ti: "title (context_task ct) = ctitle ct"
    by (simp_all add: context_task_def)
  show ?case
  proof (cases r)
    case None
    with act step en ti Cons.IH [of errs "?w1\<lparr>ctx := c1\<rparr>"] show ?thesis
      by (simp split: prod.splits)
  next
    case (Some e)
    with act step en ti Cons.IH [of "report e errs" "?w1\<lparr>ctx := c1\<rparr>"] show ?thesis
      by (simp split: prod.splits)
  qed
qed

lemma extraction_stage_run:
  assumes "extractDefaultMessages env path cfg = Inr cts"
    and "foldl (\<lambda>(errs, c) ct.
                  case caction ct c of
                    (r, c') \<Rightarrow> (case r of None \<Rightarrow> errs | Some e \<Rightarrow> report e errs, c'))
               ([], ctx w) cts = (errs1, c1)"
  shows "task (extraction_stage env path cfg) w =
           (if errs1 = [] then None else Some (ListrError errs1),
            w\<lparr>ctx := c1, trace := trace w @ map (\<lambda>ct. RunTask (ctitle ct)) cts\<rparr>)"
  using assms run_context_tasks [of cts "[]" w]
  by (simp add: extraction_stage_def extractDefaultMessagesTasks_def run_listr_def)

lemma run_tasks_first:
  "run_tasks stop (t # ts) errs w =
     (case run_tasks stop [t] errs w of
        (None, errs', w') \<Rightarrow> run_tasks stop ts errs' w'
      | (Some e, errs', w') \<Rightarrow> (Some e, errs', w'))"
  by (simp split: prod.splits option.splits)

subsection \<open>The example runs\<close>

lemma extract_fails_run:
  "run_listr \<lparr>concurrent = False, exitOnError = Some True\<rparr>
     (stages extract_fails_env no_flags one_translation)
     ((initial_world ())\<lparr>trace := [LoadConfig (include_config no_flags)]\<rparr>) =
   (Some (ListrError [FailError ''bad message'']),
    \<lparr>ctx = \<lparr>messages = [], reporter = [], external = ()\<rparr>,
     trace = LoadConfig Undefined # scan_events @
             [RunTask ''Extracting Default Messages'', RunTask ''first'', RunTask ''second''] @
             dry_run_events,
     exitCode = None, logged = []\<rparr>)"
  by (simp add: stage_defs example_defs no_flags_def fix_of_def)

lemma reported_run:
  "run_listr \<lparr>concurrent = False, exitOnError = Some True\<rparr>
     (stages reported_env no_flags one_translation)
     ((initial_world ())\<lparr>trace := [LoadConfig (include_config no_flags)]\<rparr>) =
   (Some (ListrError [FailError ''bad message'']),
    \<lparr>ctx = \<lparr>messages = [],
             reporter = [''untracked label in ./src'', ''untracked label in ./packages'',
                         ''untracked label in ./x-pack''],
             external = ()\<rparr>,
     trace = LoadConfig Undefined # scan_events @
             [RunTask ''Extracting Default Messages'', RunTask ''first''] @ dry_run_events,
     exitCode = None, logged = []\<rparr>)"
  by (simp add: stage_defs example_defs no_flags_def fix_of_def)

lemma scan_throws_run:
  "run_listr \<lparr>concurrent = False, exitOnError = Some True\<rparr>
     (stages scan_throws_env no_flags one_translation)
     ((initial_world ())\<lparr>trace := [LoadConfig (include_config no_flags)]\<rparr>) =
   (Some (FailError ''cannot read ./packages''),
    \<lparr>ctx = \<lparr>messages = [], reporter = [''cannot read ./packages''], external = ()\<rparr>,
     trace =
       [LoadConfig Undefined, RunTask ''Checking untracked messages'',
        RunTask ''Checking untracked messages in ./src'', ScanCall ''./src'',
        RunTask ''Checking untracked messages in ./packages'', ScanCall ''./packages''],
     exitCode = None, logged = []\<rparr>)"
  by (simp add: stage_defs example_defs no_flags_def fix_of_def)

lemma scan_crashes_run:
  "run_listr \<lparr>concurrent = False, exitOnError = Some True\<rparr>
     (stages scan_crashes_env no_flags one_translation)
     ((initial_world ())\<lparr>trace := [LoadConfig (include_config no_flags)]\<rparr>) =
   (Some (Thrown ''TypeError'' ''x is not a function'' None),
    \<lparr>ctx = \<lparr>messages = [], reporter = [], external = ()\<rparr>,
     trace =
       [LoadConfig Undefined, RunTask ''Checking untracked messages'',
        RunTask ''Checking untracked messages in ./src'', ScanCall ''./src''],
     exitCode = None, logged = []\<rparr>)"
  by (simp add: stage_defs example_defs no_flags_def fix_of_def)

lemma scan_throws_list_run:
  "run_listr \<lparr>concurrent = False, exitOnError = Some True\<rparr>
     (stages scan_throws_list_env no_flags one_translation)
     ((initial_world ())\<lparr>trace := [LoadConfig (include_config no_flags)]\<rparr>) =
   (Some (Thrown ''ValidationError'' ''invalid'' (Some [FailError ''detail''])),
    \<lparr>ctx = \<lparr>messages = [], reporter = [''invalid label in ./src''], external = ()\<rparr>,
     trace =
       [LoadConfig Undefined, RunTask ''Checking untracked messages'',
        RunTask ''Checking untracked messages in ./src'', ScanCall ''./src''],
     exitCode = None, logged = []\<rparr>)"
  by (simp add: stage_defs example_defs no_flags_def fix_of_def)

section \<open>Argument validation\<close>

text \<open>
  Claim C4. Whenever \<^verbatim>\<open>fix\<close> is true and one of the four ignore flags is set to
  anything but undefined, the checks fail with the incompatible-flags error, and the run
  ends there: the callback throws that error, and the trace is empty, so the configuration
  was not loaded and no stage ran.
\<close>

theorem fix_with_ignore_flag_rejected:
  assumes "fix_flag fl = FBool True"
    and "is_defined (ignore_incompatible fl) \<or> is_defined (ignore_unused fl) \<or>
         is_defined (ignore_missing fl) \<or> is_defined (ignore_untracked fl)"
  shows "validate fl = Inl (createFailError incompatible_flags_message) \<and>
         fst (run_callback env fl x0) = Threw (createFailError incompatible_flags_message) \<and>
         trace (snd (run_callback env fl x0)) = []"
proof -
  from assms(1) have "truthy (fix_of fl)" by (simp add: fix_of_def)
  then have "validate fl = Inl (createFailError incompatible_flags_message)"
    using assms(2) by (rule validate_incompatible)
  then show ?thesis by (simp add: run_callback_def initial_world_def)
qed

theorem fix_with_ignore_flag_rejected_witness:
  "validate (no_flags\<lparr>fix_flag := FBool True, ignore_unused := FBool False\<rparr>) =
     Inl (createFailError incompatible_flags_message) \<and>
   fst (run_callback quiet_env (no_flags\<lparr>fix_flag := FBool True, ignore_unused := FBool False\<rparr>) ()) =
     Threw (createFailError incompatible_flags_message) \<and>
   trace (snd (run_callback quiet_env
     (no_flags\<lparr>fix_flag := FBool True, ignore_unused := FBool False\<rparr>) ())) = []"
  using fix_with_ignore_flag_rejected
    [of "no_flags\<lparr>fix_flag := FBool True, ignore_unused := FBool False\<rparr>" quiet_env "()"]
  by (simp add: no_flags_def)

text \<open>
  Claim C10. When \<^verbatim>\<open>fix\<close> holds a truthy value that is not a boolean (a non-empty
  string, a list) and an ignore flag is set, the checks fail with the incompatible-flags
  error and not with the error for a \<^verbatim>\<open>fix\<close> that has a value: the first check comes
  before the check of the type of \<^verbatim>\<open>fix\<close>.
\<close>

theorem incompatible_flags_before_fix_type:
  assumes "truthy (fix_flag fl)" and "\<not> is_boolean (fix_flag fl)"
    and "is_defined (ignore_incompatible fl) \<or> is_defined (ignore_unused fl) \<or>
         is_defined (ignore_missing fl) \<or> is_defined (ignore_untracked fl)"
  shows "validate fl = Inl (createFailError incompatible_flags_message) \<and>
         validate fl \<noteq> Inl (createFailError fix_value_message)"
proof -
  from assms(1) have "truthy (fix_of fl)"
    by (cases "fix_flag fl") (simp_all add: fix_of_def)
  then have v: "validate fl = Inl (createFailError incompatible_flags_message)"
    using assms(3) by (rule validate_incompatible)
  have "incompatible_flags_message \<noteq> fix_value_message"
    by (simp add: incompatible_flags_message_def fix_value_message_def)
  with v show ?thesis by (simp add: createFailError_def)
qed

theorem incompatible_flags_before_fix_type_witness:
  "validate (no_flags\<lparr>fix_flag := FStr ''yes'', ignore_missing := FBool True\<rparr>) =
     Inl (createFailError incompatible_flags_message) \<and>
   validate (no_flags\<lparr>fix_flag := FStr ''yes'', ignore_missing := FBool True\<rparr>) \<noteq>
     Inl (createFailError fix_value_message)"
proof (rule incompatible_flags_before_fix_type)
  let ?fl = "no_flags\<lparr>fix_flag := FStr ''yes'', ignore_missing := FBool True\<rparr>"
  show "truthy (fix_flag ?fl)" by simp
  show "\<not> is_boolean (fix_flag ?fl)" by simp
  show "is_defined (ignore_incompatible ?fl) \<or> is_defined (ignore_unused ?fl) \<or>
        is_defined (ignore_missing ?fl) \<or> is_defined (ignore_untracked ?fl)"
    by simp
qed

section \<open>The empty configuration\<close>

text \<open>
  Claim C5. When the checks pass and the loaded configuration has no translation path, the
  callback returns right after loading the configuration: the trace holds the load and
  nothing else, so no stage ran; nothing is logged, the exit code is never set, and the
  process leaves with 0.
\<close>

theorem no_translations_short_circuit:
  assumes "validate fl = Inr ()"
    and "mergeConfigs env (include_config fl) x0 = Inr cfg"
    and "config_translations cfg = []"
  shows "run_callback env fl x0 =
           (Returned, (initial_world x0)\<lparr>trace := [LoadConfig (include_config fl)]\<rparr>) \<and>
         exit_status (exitCode (snd (run_callback env fl x0))) = 0"
  using assms by (simp add: run_callback_def initial_world_def)

theorem no_translations_short_circuit_witness:
  "run_callback empty_config_env no_flags () =
     (Returned, (initial_world ())\<lparr>trace := [LoadConfig Undefined]\<rparr>) \<and>
   exit_status (exitCode (snd (run_callback empty_config_env no_flags ()))) = 0"
proof -
  have loaded: "mergeConfigs empty_config_env (include_config no_flags) () =
                  Inr \<lparr>config_translations = []\<rparr>"
    by (simp add: empty_config_env_def)
  have none: "config_translations \<lparr>config_translations = []\<rparr> = []"
    by simp
  from no_translations_short_circuit [OF validate_no_flags loaded none]
  show ?thesis unfolding include_config_no_flags .
qed

section \<open>The stages\<close>

text \<open>
  Claim C2, as amended. The extraction list is built with \<^verbatim>\<open>exitOnError: false\<close>, so
  a failing sub-task does not abort the sub-tasks after it. In every run that reaches the
  extraction stage (the scan stage is switched off, or it ended without throwing) and in
  which \<^verbatim>\<open>extractDefaultMessages\<close> returns its sub-tasks, every sub-task is executed,
  once and in order, on the context the sub-task before it left, whether or not an earlier
  one failed; the errors of the failing ones are collected. A failing sub-task does not
  crash the run either: the enclosing list, which stops on errors, adds the collected
  errors to its own and goes on with the compatibility checks.
\<close>

theorem extraction_runs_every_subtask:
  assumes "run_tasks True [untracked_stage env (ignore_untracked fl) cfg] [] w = (None, errs0, w0)"
    and "extractDefaultMessages env (path_flag fl) cfg = Inr cts"
    and "foldl (\<lambda>(errs, c) ct.
                  case caction ct c of
                    (r, c') \<Rightarrow> (case r of None \<Rightarrow> errs | Some e \<Rightarrow> report e errs, c'))
               ([], ctx w0) cts = (errs1, c1)"
  shows "run_tasks True (stages env fl cfg) [] w =
           run_tasks True
             [compatibility_stage env (truthy (fix_of fl)) (ignore_incompatible fl)
                (ignore_unused fl) (ignore_missing fl) cfg]
             (errs0 @ errs1)
             (w0\<lparr>ctx := c1,
                 trace := trace w0 @ RunTask ''Extracting Default Messages'' #
                            map (\<lambda>ct. RunTask (ctitle ct)) cts\<rparr>)"
proof -
  let ?w1 = "w0\<lparr>trace := trace w0 @ [RunTask ''Extracting Default Messages'']\<rparr>"
  let ?rest = "[compatibility_stage env (truthy (fix_of fl)) (ignore_incompatible fl)
                  (ignore_unused fl) (ignore_missing fl) cfg]"
  have stage: "task (extraction_stage env (path_flag fl) cfg) ?w1 =
                 (if errs1 = [] then None else Some (ListrError errs1),
                  ?w1\<lparr>ctx := c1, trace := trace ?w1 @ map (\<lambda>ct. RunTask (ctitle ct)) cts\<rparr>)"
    using assms(2) by (rule extraction_stage_run) (simp add: assms(3))
  have en: "enabled (extraction_stage env (path_flag fl) cfg)"
    and ti: "title (extraction_stage env (path_flag fl) cfg) = ''Extracting Default Messages''"
    by (simp_all add: extraction_stage_def)
  have "run_tasks True (stages env fl cfg) [] w =
          run_tasks True (extraction_stage env (path_flag fl) cfg # ?rest) errs0 w0"
    unfolding stages_def
    by (subst run_tasks_first) (simp only: assms(1) prod.case option.case)
  also have "\<dots> = run_tasks True ?rest (errs0 @ errs1)
                     (?w1\<lparr>ctx := c1, trace := trace ?w1 @ map (\<lambda>ct. RunTask (ctitle ct)) cts\<rparr>)"
    using stage en ti by (cases "errs1 = []") simp_all
  finally show ?thesis by simp
qed

theorem extraction_runs_every_subtask_witness:
  "run_tasks True (stages fail_then_add_env no_flags one_translation) [] (initial_world ()) =
     (None, [FailError ''bad message''],
      \<lparr>ctx = \<lparr>messages = [(''app.title'', ''Title'')], reporter = [], external = ()\<rparr>,
       trace = scan_events @
               [RunTask ''Extracting Default Messages'', RunTask ''first'', RunTask ''second''] @
               dry_run_events,
       exitCode = None, logged = []\<rparr>)"
proof -
  have scan: "run_tasks True [untracked_stage fail_then_add_env (ignore_untracked no_flags)
                               one_translation] [] (initial_world ()) =
                (None, [], (initial_world ())\<lparr>trace := scan_events\<rparr>)"
    by (simp add: stage_defs example_defs no_flags_def)
  have built: "extractDefaultMessages fail_then_add_env (path_flag no_flags) one_translation =
                 Inr [failing_subtask, adding_subtask]"
    by (simp add: fail_then_add_env_def)
  have subs: "foldl (\<lambda>(errs, c) ct.
                  case caction ct c of
                    (r, c') \<Rightarrow> (case r of None \<Rightarrow> errs | Some e \<Rightarrow> report e errs, c'))
               ([], ctx ((initial_world ())\<lparr>trace := scan_events\<rparr>))
               [failing_subtask, adding_subtask] =
             ([FailError ''bad message''],
              \<lparr>messages = [(''app.title'', ''Title'')], reporter = [], external = ()\<rparr>)"
    by (simp add: failing_subtask_def adding_subtask_def initial_world_def)
  show ?thesis
    unfolding extraction_runs_every_subtask [OF scan built subs]
    by (simp add: stage_defs example_defs no_flags_def fix_of_def)
qed

text \<open>
  Claim C2 as the specification states it fails: of two extraction sub-tasks the first
  throws, and the second is run all the same, adding its message to the catalogue.
\<close>

theorem extraction_failure_aborts_counterexample:
  "extractDefaultMessages fail_then_add_env Undefined one_translation =
     Inr [failing_subtask, adding_subtask] \<and>
   fst (caction failing_subtask (ctx (initial_world ()))) = Some (FailError ''bad message'') \<and>
   task (extraction_stage fail_then_add_env Undefined one_translation) (initial_world ()) =
     (Some (ListrError [FailError ''bad message'']),
      \<lparr>ctx = \<lparr>messages = [(''app.title'', ''Title'')], reporter = [], external = ()\<rparr>,
       trace = [RunTask (ctitle failing_subtask), RunTask (ctitle adding_subtask)],
       exitCode = None, logged = []\<rparr>)"
  by (simp add: stage_defs example_defs)

text \<open>
  Claim C6. The last stage of the run's list is the list of the compatibility checks,
  built from the run's flags. It has one sub-task per translation path; the sub-task of a
  path calls the merge routine \<^verbatim>\<open>integrateLocaleFiles\<close> with the message catalogue and
  these options, and its outcome is the outcome of that call: the source file is the
  translation path, the target file is the translation path when \<^verbatim>\<open>fix\<close> is set and
  absent otherwise, \<^verbatim>\<open>dryRun\<close> is the negation of \<^verbatim>\<open>fix\<close>, and each of the three
  ignore options is \<^verbatim>\<open>fix\<close> or the truthiness of the flag of the same name. Run as a
  stage, the list invokes every sub-task.
\<close>

theorem compatibility_check_options:
  "(let fix = truthy (fix_of fl);
        options = (\<lambda>p. \<lparr>sourceFileName = p,
                         targetFileName = (if fix then Some p else None),
                         dryRun = (\<not> fix),
                         ignoreIncompatible = (fix \<or> truthy (ignore_incompatible fl)),
                         ignoreUnused = (fix \<or> truthy (ignore_unused fl)),
                         ignoreMissing = (fix \<or> truthy (ignore_missing fl)),
                         options_config = cfg\<rparr>);
        checks = compatibiltyChecksTasks env fix (ignore_incompatible fl) (ignore_unused fl)
                   (ignore_missing fl) cfg
    in task (last (stages env fl cfg)) =
         run_listr \<lparr>concurrent = True, exitOnError = Some False\<rparr> checks \<and>
       map title checks =
         map (\<lambda>p. ''Compatibility check with '' @ p) (config_translations cfg) \<and>
       (\<forall>i<length (config_translations cfg).
          enabled (checks ! i) \<and>
          task (checks ! i) w =
            (case integrateLocaleFiles env (messages (ctx w))
                    (options (config_translations cfg ! i)) (external (ctx w)) of
               (r, ms', x') \<Rightarrow>
                 (r, w\<lparr>ctx := (ctx w)\<lparr>messages := ms', external := x'\<rparr>,
                        trace := trace w @
                          [IntegrateCall (options (config_translations cfg ! i))]\<rparr>))) \<and>
       trace (snd (task (last (stages env fl cfg)) w)) =
         trace w @ concat (map (\<lambda>p. [RunTask (''Compatibility check with '' @ p),
                                      IntegrateCall (options p)])
                             (config_translations cfg)))"
proof -
  let ?fix = "truthy (fix_of fl)"
  let ?ts = "compatibiltyChecksTasks env ?fix (ignore_incompatible fl) (ignore_unused fl)
               (ignore_missing fl) cfg"
  let ?opts = "compatibility_options ?fix (ignore_incompatible fl) (ignore_unused fl)
                 (ignore_missing fl) cfg"
  let ?ev = "\<lambda>t::'a listr_task. [IntegrateCall (?opts (drop 25 (title t)))]"
  have stage: "task (last (stages env fl cfg)) =
                 run_listr \<lparr>concurrent = True, exitOnError = Some False\<rparr> ?ts"
    by (simp add: stages_def compatibility_stage_def)
  have titles: "map title ?ts =
                  map (\<lambda>p. ''Compatibility check with '' @ p) (config_translations cfg)"
    by (simp add: compatibiltyChecksTasks_def comp_def)
  have each: "\<forall>i<length (config_translations cfg).
          enabled (?ts ! i) \<and>
          task (?ts ! i) w =
            (case integrateLocaleFiles env (messages (ctx w))
                    (?opts (config_translations cfg ! i)) (external (ctx w)) of
               (r, ms', x') \<Rightarrow>
                 (r, w\<lparr>ctx := (ctx w)\<lparr>messages := ms', external := x'\<rparr>,
                        trace := trace w @
                          [IntegrateCall (?opts (config_translations cfg ! i))]\<rparr>))"
    by (simp add: compatibiltyChecksTasks_def compatibility_task_def)
  have "trace (snd (run_listr \<lparr>concurrent = True, exitOnError = Some False\<rparr> ?ts w)) =
          trace w @ concat (map (\<lambda>t. RunTask (title t) # ?ev t) (filter enabled ?ts))"
    by (rule run_listr_continue)
       (auto simp: compatibiltyChecksTasks_def compatibility_task_trace)
  also have "filter enabled ?ts = ?ts"
    by (simp add: compatibiltyChecksTasks_def)
  also have "concat (map (\<lambda>t. RunTask (title t) # ?ev t) ?ts) =
      concat (map (\<lambda>p. [RunTask (''Compatibility check with '' @ p), IntegrateCall (?opts p)])
                  (config_translations cfg))"
    by (simp add: compatibiltyChecksTasks_def comp_def)
  finally have tr: "trace (snd (task (last (stages env fl cfg)) w)) =
      trace w @ concat (map (\<lambda>p. [RunTask (''Compatibility check with '' @ p),
                                   IntegrateCall (?opts p)])
                          (config_translations cfg))"
    by (simp add: stage)
  from stage titles each tr show ?thesis
    by (simp add: Let_def compatibility_options_def)
qed

theorem compatibility_check_options_witness:
  "task (last (stages merging_env (no_flags\<lparr>fix_flag := FBool True\<rparr>) two_translations))
     (initial_world ()) =
     (Some (ListrError [FailError ''incompatible translation'']),
      \<lparr>ctx = \<lparr>messages = [(''merged'', ''ja-JP.json''), (''merged'', ''zh-CN.json'')],
               reporter = [], external = ()\<rparr>,
       trace =
         [RunTask ''Compatibility check with ja-JP.json'',
          IntegrateCall \<lparr>sourceFileName = ''ja-JP.json'', targetFileName = Some ''ja-JP.json'',
            dryRun = False, ignoreIncompatible = True, ignoreUnused = True,
            ignoreMissing = True, options_config = two_translations\<rparr>,
          RunTask ''Compatibility check with zh-CN.json'',
          IntegrateCall \<lparr>sourceFileName = ''zh-CN.json'', targetFileName = Some ''zh-CN.json'',
            dryRun = False, ignoreIncompatible = True, ignoreUnused = True,
            ignoreMissing = True, options_config = two_translations\<rparr>],
       exitCode = None, logged = []\<rparr>) \<and>
   task (compatibiltyChecksTasks merging_env False Undefined (FBool True) Undefined
           two_translations ! 1) (initial_world ()) =
     (Some (FailError ''incompatible translation''),
      \<lparr>ctx = \<lparr>messages = [(''merged'', ''zh-CN.json'')], reporter = [], external = ()\<rparr>,
       trace =
         [IntegrateCall \<lparr>sourceFileName = ''zh-CN.json'', targetFileName = None,
            dryRun = True, ignoreIncompatible = False, ignoreUnused = True,
            ignoreMissing = False, options_config = two_translations\<rparr>],
       exitCode = None, logged = []\<rparr>)"
proof -
  have fixed: "truthy (fix_of (no_flags\<lparr>fix_flag := FBool True\<rparr>))"
    and plain: "\<not> truthy (fix_of (no_flags\<lparr>ignore_unused := FBool True\<rparr>))"
    by (simp_all add: fix_of_def no_flags_def)
  from compatibility_check_options
         [of "no_flags\<lparr>fix_flag := FBool True\<rparr>" two_translations merging_env "initial_world ()"]
       fixed
  have first: "task (last (stages merging_env (no_flags\<lparr>fix_flag := FBool True\<rparr>) two_translations)) =
       run_listr \<lparr>concurrent = True, exitOnError = Some False\<rparr>
         (compatibiltyChecksTasks merging_env True
            (ignore_incompatible (no_flags\<lparr>fix_flag := FBool True\<rparr>))
            (ignore_unused (no_flags\<lparr>fix_flag := FBool True\<rparr>))
            (ignore_missing (no_flags\<lparr>fix_flag := FBool True\<rparr>)) two_translations)"
    by (simp add: Let_def)
  from compatibility_check_options
         [of "no_flags\<lparr>ignore_unused := FBool True\<rparr>" two_translations merging_env "initial_world ()"]
       plain
  have second: "task (compatibiltyChecksTasks merging_env False
            (ignore_incompatible (no_flags\<lparr>ignore_unused := FBool True\<rparr>))
            (ignore_unused (no_flags\<lparr>ignore_unused := FBool True\<rparr>))
            (ignore_missing (no_flags\<lparr>ignore_unused := FBool True\<rparr>)) two_translations ! 1)
          (initial_world ()) =
       (case integrateLocaleFiles merging_env (messages (ctx (initial_world ())))
               \<lparr>sourceFileName = ''zh-CN.json'', targetFileName = None,
                dryRun = True, ignoreIncompatible = False, ignoreUnused = True,
                ignoreMissing = False, options_config = two_translations\<rparr>
               (external (ctx (initial_world ()))) of
          (r, ms', x') \<Rightarrow>
            (r, (initial_world ())\<lparr>ctx := (ctx (initial_world ()))\<lparr>messages := ms', external := x'\<rparr>,
                   trace := trace (initial_world ()) @
                     [IntegrateCall \<lparr>sourceFileName = ''zh-CN.json'', targetFileName = None,
                        dryRun = True, ignoreIncompatible = False, ignoreUnused = True,
                        ignoreMissing = False, options_config = two_translations\<rparr>]\<rparr>))"
    by (simp add: Let_def two_translations_def no_flags_def)
  from first have a: "task (last (stages merging_env (no_flags\<lparr>fix_flag := FBool True\<rparr>) two_translations))
     (initial_world ()) =
     (Some (ListrError [FailError ''incompatible translation'']),
      \<lparr>ctx = \<lparr>messages = [(''merged'', ''ja-JP.json''), (''merged'', ''zh-CN.json'')],
               reporter = [], external = ()\<rparr>,
       trace =
         [RunTask ''Compatibility check with ja-JP.json'',
          IntegrateCall \<lparr>sourceFileName = ''ja-JP.json'', targetFileName = Some ''ja-JP.json'',
            dryRun = False, ignoreIncompatible = True, ignoreUnused = True,
            ignoreMissing = True, options_config = two_translations\<rparr>,
          RunTask ''Compatibility check with zh-CN.json'',
          IntegrateCall \<lparr>sourceFileName = ''zh-CN.json'', targetFileName = Some ''zh-CN.json'',
            dryRun = False, ignoreIncompatible = True, ignoreUnused = True,
            ignoreMissing = True, options_config = two_translations\<rparr>],
       exitCode = None, logged = []\<rparr>)"
    by (simp add: stage_defs merging_env_def quiet_env_def no_flags_def two_translations_def)
  from second have b: "task (compatibiltyChecksTasks merging_env False Undefined (FBool True) Undefined
           two_translations ! 1) (initial_world ()) =
     (Some (FailError ''incompatible translation''),
      \<lparr>ctx = \<lparr>messages = [(''merged'', ''zh-CN.json'')], reporter = [], external = ()\<rparr>,
       trace =
         [IntegrateCall \<lparr>sourceFileName = ''zh-CN.json'', targetFileName = None,
            dryRun = True, ignoreIncompatible = False, ignoreUnused = True,
            ignoreMissing = False, options_config = two_translations\<rparr>],
       exitCode = None, logged = []\<rparr>)"
    by (simp add: no_flags_def merging_env_def quiet_env_def initial_world_def)
  from a b show ?thesis by (rule conjI)
qed

text \<open>
  Claim C3, on the code. The scan list is built with \<^verbatim>\<open>exitOnError: true\<close>; the
  \<^verbatim>\<open>exitOnError: false\<close> written on each scan task is not an option of a task. When
  the scan of the second source path reports one entry and throws, the third source path
  is not attempted: the error ends the scan list and the enclosing list, no later stage
  runs, and the callback treats the error as unhandled and ends the process.
\<close>

theorem scan_failure_ends_run:
  "run_callback scan_throws_env no_flags () =
     (Exited,
      \<lparr>ctx = \<lparr>messages = [], reporter = [''cannot read ./packages''], external = ()\<rparr>,
       trace =
         [LoadConfig Undefined, RunTask ''Checking untracked messages'',
          RunTask ''Checking untracked messages in ./src'', ScanCall ''./src'',
          RunTask ''Checking untracked messages in ./packages'', ScanCall ''./packages''],
       exitCode = Some 1,
       logged = [LogText ''Unhandled exception!'',
                 LogError (FailError ''cannot read ./packages'')]\<rparr>)"
proof -
  have "run_callback scan_throws_env no_flags () =
      on_run_error (FailError ''cannot read ./packages'')
      \<lparr>ctx = \<lparr>messages = [], reporter = [''cannot read ./packages''], external = ()\<rparr>,
       trace =
         [LoadConfig Undefined, RunTask ''Checking untracked messages'',
          RunTask ''Checking untracked messages in ./src'', ScanCall ''./src'',
          RunTask ''Checking untracked messages in ./packages'', ScanCall ''./packages''],
       exitCode = None, logged = []\<rparr>"
    by (rule run_callback_list_error [OF validate_no_flags _ _ scan_throws_run])
       (simp_all add: example_defs)
  then show ?thesis by (simp add: on_run_error_def)
qed

section \<open>The end of a failed run\<close>

text \<open>
  Claim C1, as amended. In every run in which the task list raises an error named
  \<^verbatim>\<open>ListrError\<close> (the runner's aggregate error) whose list of errors is not empty,
  while the reporter holds at least one entry, the callback sets the exit code to 1 and
  throws one failure whose message is the reporter's entries joined by blank lines; it
  logs nothing, so the errors of the stages are not printed again.
\<close>

theorem reported_failure_aggregates:
  assumes "validate fl = Inr ()"
    and "mergeConfigs env (include_config fl) x0 = Inr cfg"
    and "config_translations cfg \<noteq> []"
    and "run_listr \<lparr>concurrent = False, exitOnError = Some True\<rparr> (stages env fl cfg)
           ((initial_world x0)\<lparr>trace := [LoadConfig (include_config fl)]\<rparr>) = (Some error, w)"
    and "err_name error = ''ListrError''"
    and "err_errors error = Some es" and "es \<noteq> []"
    and "reporter (ctx w) \<noteq> []"
  shows "run_callback env fl x0 =
           (Threw (createFailError (js_join blank_line (reporter (ctx w)))),
            w\<lparr>exitCode := Some 1\<rparr>)"
proof -
  have "run_callback env fl x0 = on_run_error error w"
    using assms(1-4) by (rule run_callback_list_error)
  with assms(5-8) show ?thesis by (simp add: on_run_error_def)
qed

theorem reported_failure_aggregates_witness:
  "run_callback reported_env no_flags () =
     (Threw (createFailError (js_join blank_line
        [''untracked label in ./src'', ''untracked label in ./packages'',
         ''untracked label in ./x-pack''])),
      \<lparr>ctx = \<lparr>messages = [],
               reporter = [''untracked label in ./src'', ''untracked label in ./packages'',
                           ''untracked label in ./x-pack''],
               external = ()\<rparr>,
       trace = LoadConfig Undefined # scan_events @
               [RunTask ''Extracting Default Messages'', RunTask ''first''] @ dry_run_events,
       exitCode = Some 1, logged = []\<rparr>)"
  using reported_failure_aggregates
    [OF validate_no_flags _ _ reported_run, of "[FailError ''bad message'']"]
  by (simp add: reported_env_def quiet_env_def one_translation_def)

text \<open>
  Claim C1 as the specification states it fails. The scan of the first source path
  reports one entry and throws an error that carries a list of one error and is not named
  \<^verbatim>\<open>ListrError\<close>. The task list raises that error, its list of errors is not empty
  and the reporter has an entry; yet the callback throws no aggregate failure: it logs the
  error of the list and returns.
\<close>

theorem reported_failure_counterexample:
  "run_listr \<lparr>concurrent = False, exitOnError = Some True\<rparr>
     (stages scan_throws_list_env no_flags one_translation)
     ((initial_world ())\<lparr>trace := [LoadConfig (include_config no_flags)]\<rparr>) =
     (Some (Thrown ''ValidationError'' ''invalid'' (Some [FailError ''detail''])),
      \<lparr>ctx = \<lparr>messages = [], reporter = [''invalid label in ./src''], external = ()\<rparr>,
       trace = [LoadConfig Undefined, RunTask ''Checking untracked messages'',
                RunTask ''Checking untracked messages in ./src'', ScanCall ''./src''],
       exitCode = None, logged = []\<rparr>) \<and>
   err_errors (Thrown ''ValidationError'' ''invalid'' (Some [FailError ''detail''])) =
     Some [FailError ''detail''] \<and>
   run_callback scan_throws_list_env no_flags () =
     (Returned,
      \<lparr>ctx = \<lparr>messages = [], reporter = [''invalid label in ./src''], external = ()\<rparr>,
       trace = [LoadConfig Undefined, RunTask ''Checking untracked messages'',
                RunTask ''Checking untracked messages in ./src'', ScanCall ''./src''],
       exitCode = Some 1, logged = [LogError (FailError ''detail'')]\<rparr>)"
proof -
  have "run_callback scan_throws_list_env no_flags () =
      on_run_error (Thrown ''ValidationError'' ''invalid'' (Some [FailError ''detail'']))
      \<lparr>ctx = \<lparr>messages = [], reporter = [''invalid label in ./src''], external = ()\<rparr>,
       trace = [LoadConfig Undefined, RunTask ''Checking untracked messages'',
                RunTask ''Checking untracked messages in ./src'', ScanCall ''./src''],
       exitCode = None, logged = []\<rparr>"
    by (rule run_callback_list_error [OF validate_no_flags _ _ scan_throws_list_run])
       (simp_all add: example_defs)
  then show ?thesis using scan_throws_list_run by (simp add: on_run_error_def)
qed

text \<open>
  Claim C7. In every run in which the task list raises an error that carries a list of
  errors that is not empty, while the reporter holds no entry, the callback sets the exit
  code to 1, logs every error of the list, one by one and in order, and returns: nothing
  is thrown and the process is not ended by the callback.
\<close>

theorem partial_failure_logs_each_error:
  assumes "validate fl = Inr ()"
    and "mergeConfigs env (include_config fl) x0 = Inr cfg"
    and "config_translations cfg \<noteq> []"
    and "run_listr \<lparr>concurrent = False, exitOnError = Some True\<rparr> (stages env fl cfg)
           ((initial_world x0)\<lparr>trace := [LoadConfig (include_config fl)]\<rparr>) = (Some error, w)"
    and "err_errors error = Some es" and "es \<noteq> []"
    and "reporter (ctx w) = []"
  shows "run_callback env fl x0 =
           (Returned, w\<lparr>exitCode := Some 1, logged := logged w @ map LogError es\<rparr>)"
proof -
  have "run_callback env fl x0 = on_run_error error w"
    using assms(1-4) by (rule run_callback_list_error)
  with assms(5-7) show ?thesis by (simp add: on_run_error_def)
qed

theorem partial_failure_logs_each_error_witness:
  "run_callback extract_fails_env no_flags () =
     (Returned,
      \<lparr>ctx = \<lparr>messages = [], reporter = [], external = ()\<rparr>,
       trace = LoadConfig Undefined # scan_events @
               [RunTask ''Extracting Default Messages'', RunTask ''first'', RunTask ''second''] @
               dry_run_events,
       exitCode = Some 1, logged = [LogError (FailError ''bad message'')]\<rparr>)"
  using partial_failure_logs_each_error
    [OF validate_no_flags _ _ extract_fails_run, of "[FailError ''bad message'']"]
  by (simp add: extract_fails_env_def quiet_env_def one_translation_def)

text \<open>
  Claim C8. In every run in which the task list raises an error that carries no list of
  errors, the callback logs the line \<^verbatim>\<open>Unhandled exception!\<close> and the error itself,
  and ends the process at once by \<^verbatim>\<open>process.exit()\<close>: it neither returns nor throws,
  so the run does not come to its end the way a reported failure does. The exit code was
  set to 1 before, and that is the code the process leaves with.
\<close>

theorem unhandled_error_exits:
  assumes "validate fl = Inr ()"
    and "mergeConfigs env (include_config fl) x0 = Inr cfg"
    and "config_translations cfg \<noteq> []"
    and "run_listr \<lparr>concurrent = False, exitOnError = Some True\<rparr> (stages env fl cfg)
           ((initial_world x0)\<lparr>trace := [LoadConfig (include_config fl)]\<rparr>) = (Some error, w)"
    and "err_errors error = None"
  shows "run_callback env fl x0 =
           (Exited, w\<lparr>exitCode := Some 1,
                      logged := logged w @ [LogText ''Unhandled exception!'', LogError error]\<rparr>)"
proof -
  have "run_callback env fl x0 = on_run_error error w"
    using assms(1-4) by (rule run_callback_list_error)
  with assms(5) show ?thesis by (simp add: on_run_error_def)
qed

theorem unhandled_error_exits_witness:
  "run_callback scan_crashes_env no_flags () =
     (Exited,
      \<lparr>ctx = \<lparr>messages = [], reporter = [], external = ()\<rparr>,
       trace = [LoadConfig Undefined, RunTask ''Checking untracked messages'',
                RunTask ''Checking untracked messages in ./src'', ScanCall ''./src''],
       exitCode = Some 1,
       logged = [LogText ''Unhandled exception!'',
                 LogError (Thrown ''TypeError'' ''x is not a function'' None)]\<rparr>)"
  using unhandled_error_exits [OF validate_no_flags _ _ scan_crashes_run]
  by (simp add: scan_crashes_env_def quiet_env_def one_translation_def)

section \<open>The PNG export job\<close>

text \<open>
  Claim C9. For all job parameters, headers and request, \<^verbatim>\<open>createJob\<close> encrypts the
  headers first: when the encryption throws, it throws that error and has done nothing
  else. It then validates the relative URL: when the validation throws, it throws that
  error and returns no object. Otherwise it returns an object whose object type, title,
  relative URL, browser timezone and layout are those of the parameters, whose headers are
  the encrypted serialization and not the headers given, whose base path is the request's,
  and whose \<^verbatim>\<open>forceNow\<close> is the time read last, when the object is built.
\<close>

theorem createJob_payload:
  "(\<forall>e. encrypt env headers = Inl e \<longrightarrow>
      createJob env params headers request = ([Encrypt headers], Inl e)) \<and>
   (\<forall>encrypted e.
      encrypt env headers = Inr encrypted \<longrightarrow>
      validateUrls env [param_relativeUrl params] = Some e \<longrightarrow>
      createJob env params headers request =
        ([Encrypt headers, ValidateUrls [param_relativeUrl params]], Inl e)) \<and>
   (\<forall>encrypted.
      encrypt env headers = Inr encrypted \<longrightarrow>
      validateUrls env [param_relativeUrl params] = None \<longrightarrow>
      createJob env params headers request =
        ([Encrypt headers, ValidateUrls [param_relativeUrl params], GetBasePath, NewDate],
         Inr \<lparr>job_objectType = param_objectType params,
              job_title = param_title params,
              job_relativeUrl = param_relativeUrl params,
              job_headers = encrypted,
              job_browserTimezone = param_browserTimezone params,
              job_layout = param_layout params,
              job_basePath = getBasePath request,
              job_forceNow = now_iso env\<rparr>))"
  by (simp add: createJob_def)

theorem createJob_payload_witness:
  "createJob demo_job_env demo_params [(''authorization'', ''Basic abc'')]
     \<lparr>getBasePath = ''/s/sales''\<rparr> =
     ([Encrypt [(''authorization'', ''Basic abc'')],
       ValidateUrls [''/app/kibana#/dashboard/1''], GetBasePath, NewDate],
      Inr \<lparr>job_objectType = ''dashboard'', job_title = ''Sales'',
           job_relativeUrl = ''/app/kibana#/dashboard/1'',
           job_headers = ''Fe26.2**c2VhbGVk'',
           job_browserTimezone = ''UTC'', job_layout = ''preserve_layout'',
           job_basePath = ''/s/sales'', job_forceNow = ''2019-08-01T12:00:00.000Z''\<rparr>) \<and>
   createJob demo_job_env (demo_params\<lparr>param_relativeUrl := ''http://example.org/''\<rparr>)
     [(''authorization'', ''Basic abc'')] \<lparr>getBasePath = ''/s/sales''\<rparr> =
     ([Encrypt [(''authorization'', ''Basic abc'')], ValidateUrls [''http://example.org/'']],
      Inl (Thrown ''Error'' ''Found invalid URL(s)'' None)) \<and>
   createJob (demo_job_env\<lparr>encrypt := (\<lambda>headers. Inl (Thrown ''Error'' ''no key'' None))\<rparr>)
     demo_params [(''authorization'', ''Basic abc'')] \<lparr>getBasePath = ''/s/sales''\<rparr> =
     ([Encrypt [(''authorization'', ''Basic abc'')]], Inl (Thrown ''Error'' ''no key'' None))"
proof -
  let ?h = "[(''authorization'', ''Basic abc'')]"
  let ?r = "\<lparr>getBasePath = ''/s/sales''\<rparr>"
  have enc: "encrypt demo_job_env ?h = Inr ''Fe26.2**c2VhbGVk''"
    by (simp add: demo_job_env_def)
  have good: "validateUrls demo_job_env [param_relativeUrl demo_params] = None"
    by (simp add: demo_job_env_def demo_params_def)
  have bad: "validateUrls demo_job_env
               [param_relativeUrl (demo_params\<lparr>param_relativeUrl := ''http://example.org/''\<rparr>)] =
             Some (Thrown ''Error'' ''Found invalid URL(s)'' None)"
    by (simp add: demo_job_env_def)
  have none: "encrypt (demo_job_env\<lparr>encrypt := (\<lambda>headers. Inl (Thrown ''Error'' ''no key'' None))\<rparr>) ?h =
                Inl (Thrown ''Error'' ''no key'' None)"
    by simp
  from createJob_payload [of demo_job_env ?h demo_params ?r] enc good
  have a: "createJob demo_job_env demo_params ?h ?r =
     ([Encrypt ?h, ValidateUrls [param_relativeUrl demo_params], GetBasePath, NewDate],
      Inr \<lparr>job_objectType = param_objectType demo_params,
           job_title = param_title demo_params,
           job_relativeUrl = param_relativeUrl demo_params,
           job_headers = ''Fe26.2**c2VhbGVk'',
           job_browserTimezone = param_browserTimezone demo_params,
           job_layout = param_layout demo_params,
           job_basePath = getBasePath ?r,
           job_forceNow = now_iso demo_job_env\<rparr>)"
    by blast
  from createJob_payload
         [of demo_job_env ?h "demo_params\<lparr>param_relativeUrl := ''http://example.org/''\<rparr>" ?r]
       enc bad
  have b: "createJob demo_job_env (demo_params\<lparr>param_relativeUrl := ''http://example.org/''\<rparr>) ?h ?r =
     ([Encrypt ?h,
       ValidateUrls [param_relativeUrl (demo_params\<lparr>param_relativeUrl := ''http://example.org/''\<rparr>)]],
      Inl (Thrown ''Error'' ''Found invalid URL(s)'' None))"
    by blast
  from createJob_payload
         [of "demo_job_env\<lparr>encrypt := (\<lambda>headers. Inl (Thrown ''Error'' ''no key'' None))\<rparr>"
             ?h demo_params ?r] none
  have c: "createJob (demo_job_env\<lparr>encrypt := (\<lambda>headers. Inl (Thrown ''Error'' ''no key'' None))\<rparr>)
             demo_params ?h ?r = ([Encrypt ?h], Inl (Thrown ''Error'' ''no key'' None))"
    by blast
  from a b c show ?thesis
    by (simp add: demo_params_def demo_job_env_def)
qed

section \<open>Further properties\<close>

text \<open>
  X1. When no call of \<^verbatim>\<open>extractUntrackedMessages\<close> throws, the scan stage attempts
  the three source paths \<^verbatim>\<open>./src\<close>, \<^verbatim>\<open>./packages\<close> and \<^verbatim>\<open>./x-pack\<close> once each
  and in this order, each call receiving the reporter as the call before left it, and the
  stage ends without an error: entries a scan reports do not stop the scan.
\<close>

theorem scan_attempts_every_path:
  assumes "\<And>p rep x. fst (extractUntrackedMessages env p cfg rep x) = None"
  shows "fst (task (untracked_stage env iu cfg) w) = None \<and>
         trace (snd (task (untracked_stage env iu cfg) w)) =
           trace w @
           [RunTask ''Checking untracked messages in ./src'', ScanCall ''./src'',
            RunTask ''Checking untracked messages in ./packages'', ScanCall ''./packages'',
            RunTask ''Checking untracked messages in ./x-pack'', ScanCall ''./x-pack''] \<and>
         (reporter (ctx (snd (task (untracked_stage env iu cfg) w))),
          external (ctx (snd (task (untracked_stage env iu cfg) w)))) =
           foldl (\<lambda>(rep, x) p. snd (extractUntrackedMessages env p cfg rep x))
             (reporter (ctx w), external (ctx w)) srcCodePaths"
proof -
  have call: "\<And>p rep x. \<exists>rep' x'. extractUntrackedMessages env p cfg rep x = (None, rep', x')"
  proof -
    fix p rep x
    from assms [of p rep x] show "\<exists>rep' x'. extractUntrackedMessages env p cfg rep x = (None, rep', x')"
      by (cases "extractUntrackedMessages env p cfg rep x") auto
  qed
  obtain r1 x1 where c1:
    "extractUntrackedMessages env ''./src'' cfg (reporter (ctx w)) (external (ctx w)) = (None, r1, x1)"
    using call by blast
  obtain r2 x2 where c2: "extractUntrackedMessages env ''./packages'' cfg r1 x1 = (None, r2, x2)"
    using call by blast
  obtain r3 x3 where c3: "extractUntrackedMessages env ''./x-pack'' cfg r2 x2 = (None, r3, x3)"
    using call by blast
  from c1 c2 c3 show ?thesis
    by (simp add: untracked_stage_def untrackedMessagesTasks_def untracked_task_def
        srcCodePaths_def run_listr_def)
qed

theorem scan_attempts_every_path_witness:
  "fst (task (untracked_stage reported_env Undefined one_translation) (initial_world ())) = None \<and>
   trace (snd (task (untracked_stage reported_env Undefined one_translation) (initial_world ()))) =
     [RunTask ''Checking untracked messages in ./src'', ScanCall ''./src'',
      RunTask ''Checking untracked messages in ./packages'', ScanCall ''./packages'',
      RunTask ''Checking untracked messages in ./x-pack'', ScanCall ''./x-pack''] \<and>
   reporter (ctx (snd (task (untracked_stage reported_env Undefined one_translation)
                         (initial_world ())))) =
     [''untracked label in ./src'', ''untracked label in ./packages'',
      ''untracked label in ./x-pack'']"
  using scan_attempts_every_path [of reported_env one_translation Undefined "initial_world ()"]
  by (simp add: reported_env_def quiet_env_def initial_world_def srcCodePaths_def)

text \<open>
  X2. When the encryption of the headers throws, \<^verbatim>\<open>createJob\<close> throws that error and
  has done nothing else: the URL is not checked.
\<close>

theorem createJob_encryption_failure:
  assumes "encrypt env headers = Inl e"
  shows "createJob env params headers request = ([Encrypt headers], Inl e)"
  using assms by (simp add: createJob_def)

theorem createJob_encryption_failure_witness:
  "createJob (demo_job_env\<lparr>encrypt := (\<lambda>headers. Inl (Thrown ''Error'' ''no encryption key'' None))\<rparr>)
     demo_params [(''authorization'', ''Basic abc'')] \<lparr>getBasePath = ''/s/sales''\<rparr> =
     ([Encrypt [(''authorization'', ''Basic abc'')]],
      Inl (Thrown ''Error'' ''no encryption key'' None))"
  using createJob_encryption_failure
    [of "demo_job_env\<lparr>encrypt := (\<lambda>headers. Inl (Thrown ''Error'' ''no encryption key'' None))\<rparr>"
        "[(''authorization'', ''Basic abc'')]" "Thrown ''Error'' ''no encryption key'' None"
        demo_params "\<lparr>getBasePath = ''/s/sales''\<rparr>"]
  by simp

text \<open>
  X3. When the headers are encrypted and the check of the relative URL throws,
  \<^verbatim>\<open>createJob\<close> throws that error after these two steps and returns no object.
\<close>

theorem createJob_invalid_url:
  assumes "encrypt env headers = Inr encrypted"
    and "validateUrls env [param_relativeUrl params] = Some e"
  shows "createJob env params headers request =
           ([Encrypt headers, ValidateUrls [param_relativeUrl params]], Inl e)"
  using assms by (simp add: createJob_def)

theorem createJob_invalid_url_witness:
  "createJob demo_job_env (demo_params\<lparr>param_relativeUrl := ''http://example.org/''\<rparr>)
     [(''authorization'', ''Basic abc'')] \<lparr>getBasePath = ''/s/sales''\<rparr> =
     ([Encrypt [(''authorization'', ''Basic abc'')], ValidateUrls [''http://example.org/'']],
      Inl (Thrown ''Error'' ''Found invalid URL(s)'' None))"
  using createJob_invalid_url
    [of demo_job_env "[(''authorization'', ''Basic abc'')]" "''Fe26.2**c2VhbGVk''"
        "demo_params\<lparr>param_relativeUrl := ''http://example.org/''\<rparr>"
        "Thrown ''Error'' ''Found invalid URL(s)'' None" "\<lparr>getBasePath = ''/s/sales''\<rparr>"]
  by (simp add: demo_job_env_def demo_params_def)

text \<open>
  X4. When the run reaches the extraction stage and \<^verbatim>\<open>extractDefaultMessages\<close> itself
  throws an error that is not the runner's aggregate, no extraction sub-task exists and
  the error ends the whole list: the stage's task function has thrown it, the enclosing
  list stops on errors, and the compatibility checks do not run.
\<close>

theorem extraction_build_failure_ends_run:
  assumes "run_tasks True [untracked_stage env (ignore_untracked fl) cfg] [] w = (None, errs0, w0)"
    and "extractDefaultMessages env (path_flag fl) cfg = Inl e"
    and "\<not> is_listr_error e"
  shows "run_listr \<lparr>concurrent = False, exitOnError = Some True\<rparr> (stages env fl cfg) w =
           (Some e, w0\<lparr>trace := trace w0 @ [RunTask ''Extracting Default Messages'']\<rparr>)"
proof -
  let ?rest = "[compatibility_stage env (truthy (fix_of fl)) (ignore_incompatible fl)
                  (ignore_unused fl) (ignore_missing fl) cfg]"
  have "run_tasks True (stages env fl cfg) [] w =
          run_tasks True (extraction_stage env (path_flag fl) cfg # ?rest) errs0 w0"
    unfolding stages_def
    by (subst run_tasks_first) (simp only: assms(1) prod.case option.case)
  also have "\<dots> = (Some e, report e errs0,
                     w0\<lparr>trace := trace w0 @ [RunTask ''Extracting Default Messages'']\<rparr>)"
    using assms(2,3) by (simp add: extraction_stage_def extractDefaultMessagesTasks_def)
  finally show ?thesis by (simp add: run_listr_def)
qed

theorem extraction_build_failure_ends_run_witness:
  "run_listr \<lparr>concurrent = False, exitOnError = Some True\<rparr>
     (stages extract_throws_env no_flags one_translation) (initial_world ()) =
     (Some (Thrown ''Error'' ''cannot read the source paths'' None),
      (initial_world ())\<lparr>trace := scan_events @ [RunTask ''Extracting Default Messages'']\<rparr>)"
proof -
  have scan: "run_tasks True [untracked_stage extract_throws_env (ignore_untracked no_flags)
                               one_translation] [] (initial_world ()) =
                (None, [], (initial_world ())\<lparr>trace := scan_events\<rparr>)"
    by (simp add: stage_defs example_defs no_flags_def)
  have thrown: "extractDefaultMessages extract_throws_env (path_flag no_flags) one_translation =
                  Inl (Thrown ''Error'' ''cannot read the source paths'' None)"
    by (simp add: extract_throws_env_def)
  from extraction_build_failure_ends_run [OF scan thrown]
  show ?thesis by simp
qed

end
